theory Spec2Isabelle
  imports Complex_Main "HOL-Library.Word" "HOL-Library.Multiset"
begin

section \<open>Values, errors and console output\<close>

text \<open>
  The program is a pipeline of functions over pandas tables. A table is modelled by the
  labels of its locus columns and by its rows; a row has the three columns that
  \<open>fix_header\<close> names \<open>file\<close>, \<open>scheme\<close> and \<open>ST\<close>, and the locus columns after them
  (\<open>columns[3:]\<close>, \<open>iloc[:,3:]\<close>). The scheme stages read the column \<open>scheme\<close> by name; the
  model reads it by position, which is the same column when no gene is named like one
  of the three fixed columns. The allele stage reads every locus column by its label,
  and the model decides from the labels whether that read gives one column.

  Cells are text, as the typing tool writes them. pandas reads an empty field as a
  missing value and a column in which every field is a numeral as numbers; tables with
  such columns are outside the model. The library calls are those of pandas 1.x, for
  which the program was written.

  Every exception the modelled code can raise is a value of \<open>error\<close>; what a function
  prints is returned beside its outcome.
\<close>

datatype error =
  ValueError | IndexError | TypeError | KeyError | AttributeError | UnboundLocalError
  | IntCastingNaNError | FileNotFoundError | EmptyDataError | ParserError

datatype msg =
  Skipped_dimensions string
  | Skipped_empty string
  | Combined nat
  | Printed_pct rat
  | Printed_type
  | Warning string rat

type_synonym 'a io = "msg list \<times> (error + 'a)"

definition and_then :: "'a io \<Rightarrow> ('a \<Rightarrow> 'b io) \<Rightarrow> 'b io" where
  "and_then m f =
     (case m of
        (printed, Inl e) \<Rightarrow> (printed, Inl e)
      | (printed, Inr x) \<Rightarrow> (case f x of (printed', r) \<Rightarrow> (printed @ printed', r)))"

record 'a row =
  filename :: string
  scheme :: string
  ST :: string
  loci :: "'a list"

record 'a dataframe =
  genes :: "string list"
  rows :: "'a row list"

definition map_loci :: "('a \<Rightarrow> 'b) \<Rightarrow> 'a row \<Rightarrow> 'b row" where
  "map_loci f r = \<lparr>filename = filename r, scheme = scheme r, ST = ST r, loci = map f (loci r)\<rparr>"

text \<open>Boolean indexing \<open>dataframe[mask]\<close>: the rows at the positions where the flag list holds True.\<close>

definition bool_index :: "'a list \<Rightarrow> bool list \<Rightarrow> 'a list" where
  "bool_index xs flags = map fst (filter snd (zip xs flags))"

section \<open>Record Ingestor\<close>

text \<open>
  A file on disk is modelled by its path, by what \<open>os.stat(file).st_size\<close> gives (the
  size in bytes, or \<open>FileNotFoundError\<close>) and by what \<open>pd.read_table\<close> gives for it: the
  headerless table it parses, as a list of rows of fields, or the exception it raises
  (\<open>EmptyDataError\<close> for a file of blank lines only, \<open>ParserError\<close> for a line with
  more fields than the first). Neither call is guarded, so either exception ends the
  run. The shape of a parsed table is \<open>(1, nr_cols)\<close> exactly when it has one row of
  \<open>nr_cols\<close> fields. \<open>pd.concat\<close> of an empty list raises \<open>ValueError\<close>.
\<close>

record mlst_file =
  path :: string
  st_size :: "error + nat"
  parsed :: "error + string list list"

definition has_shape_1 :: "string list list \<Rightarrow> int \<Rightarrow> bool" where
  "has_shape_1 t nr_cols = (case t of [r] \<Rightarrow> int (length r) = nr_cols | _ \<Rightarrow> False)"

text \<open>One turn of the loop of lines 29 to 37: the tables the file adds to \<open>df_list\<close>.\<close>

definition read_file :: "int \<Rightarrow> mlst_file \<Rightarrow> string list list list io" where
  "read_file nr_cols f =
     (case st_size f of
        Inl e \<Rightarrow> ([], Inl e)
      | Inr n \<Rightarrow>
          if n > 0 then
            (case parsed f of
               Inl e \<Rightarrow> ([], Inl e)
             | Inr tmp_df \<Rightarrow>
                 if has_shape_1 tmp_df nr_cols then ([], Inr [tmp_df])
                 else ([Skipped_dimensions (path f)], Inr []))
          else ([Skipped_empty (path f)], Inr []))"

fun read_loop :: "int \<Rightarrow> mlst_file list \<Rightarrow> string list list list io" where
  "read_loop nr_cols [] = ([], Inr [])"
| "read_loop nr_cols (f # fs) =
     and_then (read_file nr_cols f) (\<lambda>accepted.
     and_then (read_loop nr_cols fs) (\<lambda>df_list. ([], Inr (accepted @ df_list))))"

definition read_mlst_files :: "mlst_file list \<Rightarrow> int \<Rightarrow> string list list io" where
  "read_mlst_files mlst_files nr_loci =
     and_then (read_loop (nr_loci + 3) mlst_files) (\<lambda>df_list.
       if df_list = [] then ([], Inl ValueError)
       else ([Combined (length df_list)], Inr (concat df_list)))"

text \<open>
  The summary file is read without any check: the result is what \<open>pd.read_csv\<close> gives
  for it, a table or an exception.
\<close>

definition read_mlst_summary :: "error + string list list \<Rightarrow> error + string list list" where
  "read_mlst_summary mlst_summary = mlst_summary"

section \<open>Header Deriver\<close>

text \<open>
  \<open>allele.split('(')[0]\<close> is the text before the first opening parenthesis.
  \<open>dataframe.iloc[0,3:]\<close> raises \<open>IndexError\<close> on a table without rows, and assigning a
  header of at least three names to a narrower table raises \<open>ValueError\<close>.
\<close>

definition gene_name :: "string \<Rightarrow> string" where
  "gene_name allele = takeWhile (\<lambda>c. c \<noteq> CHR ''('') allele"

fun mk_row :: "string list \<Rightarrow> string row option" where
  "mk_row (f # s # t # ls) = Some \<lparr>filename = f, scheme = s, ST = t, loci = ls\<rparr>"
| "mk_row _ = None"

definition fix_header :: "string list list \<Rightarrow> error + string dataframe" where
  "fix_header raw =
     (case raw of
        [] \<Rightarrow> Inl IndexError
      | first # _ \<Rightarrow>
          (case those (map mk_row raw) of
             None \<Rightarrow> Inl ValueError
           | Some rs \<Rightarrow> Inr \<lparr>genes = map gene_name (drop 3 first), rows = rs\<rparr>))"

text \<open>The column labels of a table with a header.\<close>

definition columns :: "'a dataframe \<Rightarrow> string list" where
  "columns df = ''file'' # ''scheme'' # ''ST'' # genes df"

section \<open>Scheme Selector\<close>

text \<open>
  \<open>value_counts\<close> lists each distinct value with the number of its occurrences, the most
  frequent first. The order among values with the same count is left by pandas to its
  sorting routine; the model lists them in the order of first appearance, and no
  statement below depends on that order. The percentage is an exact fraction here; the
  program computes it in double precision and prints it with two decimals, which is
  not modelled. \<open>int\<close> of a selection of one count is that count, and of an empty
  selection raises \<open>TypeError\<close>; \<open>valuecounts.index[0]\<close> of an empty index raises
  \<open>IndexError\<close>.
\<close>

definition uniques :: "'a list \<Rightarrow> 'a list" where
  "uniques xs = rev (remdups (rev xs))"

definition value_counts :: "string list \<Rightarrow> (string \<times> nat) list" where
  "value_counts xs =
     sort_key (\<lambda>p. - int (snd p)) (map (\<lambda>v. (v, count_list xs v)) (uniques xs))"

definition choose_scheme :: "(string \<times> nat) list \<Rightarrow> string option \<Rightarrow> error + string" where
  "choose_scheme valuecounts scheme_arg =
     (case scheme_arg of
        None \<Rightarrow> (case valuecounts of [] \<Rightarrow> Inl IndexError | p # _ \<Rightarrow> Inr (fst p))
      | Some s \<Rightarrow> Inr s)"

definition select_scheme :: "string dataframe \<Rightarrow> string option \<Rightarrow> string io" where
  "select_scheme dataframe scheme_arg =
     (let valuecounts = value_counts (map scheme (rows dataframe));
          total = sum_list (map snd valuecounts)
      in case choose_scheme valuecounts scheme_arg of
           Inl e \<Rightarrow> ([], Inl e)
         | Inr selected_scheme \<Rightarrow>
             (case filter (\<lambda>p. fst p = selected_scheme) valuecounts of
                [p] \<Rightarrow>
                  (let selected_pct = (of_nat (snd p) / of_nat total) * (100 :: rat) in
                   if selected_pct < 75
                   then ([Printed_pct selected_pct, Printed_type,
                          Warning selected_scheme selected_pct], Inr selected_scheme)
                   else ([], Inr selected_scheme))
              | _ \<Rightarrow> ([], Inl TypeError)))"

section \<open>Scheme Partitioner\<close>

definition clean_dataframe_scheme ::
  "string dataframe \<Rightarrow> string \<Rightarrow> string dataframe \<times> string dataframe" where
  "clean_dataframe_scheme dataframe sch =
     (let filter_scheme = map (\<lambda>r. scheme r = sch) (rows dataframe);
          dataframe_clean = bool_index (rows dataframe) filter_scheme;
          dataframe_not_scheme = bool_index (rows dataframe) (map Not filter_scheme);
          dataframe_not_scheme' =
            bool_index dataframe_not_scheme (map (\<lambda>r. scheme r \<noteq> ''-'') dataframe_not_scheme)
      in (\<lparr>genes = genes dataframe, rows = dataframe_clean\<rparr>,
          \<lparr>genes = genes dataframe, rows = dataframe_not_scheme'\<rparr>))"

section \<open>Allele Validator\<close>

text \<open>
  \<open>str.replace('[a-zA-Z()]', '')\<close> reads its pattern as a regular expression, as pandas
  did when the program was written: every ASCII letter and every parenthesis is
  deleted.
\<close>

definition is_letter :: "char \<Rightarrow> bool" where
  "is_letter c = (c \<in> set ''abcdefghijklmnopqrstuvwxyzABCDEFGHIJKLMNOPQRSTUVWXYZ'')"

definition str_replace :: "string \<Rightarrow> string" where
  "str_replace s = filter (\<lambda>c. \<not> (is_letter c \<or> c = CHR ''('' \<or> c = CHR '')'')) s"

text \<open>
  \<open>pd.to_numeric(..., errors='coerce')\<close> on text without letters: blanks, an optional
  sign, decimal digits with an optional fractional part (at least one digit in all),
  blanks. Anything else becomes \<open>NaN\<close>. \<open>Num m d\<close> is the number \<open>m / 10^d\<close>, kept
  exact. pandas holds the column as 64-bit integers when every cell is an integer, and
  in double precision otherwise; the exact number is the value pandas holds for every
  text of up to 15 digits, and the statements below that speak of values are limited
  to such text. Numbers of about \<open>1.8e308\<close> and more, which pandas rejects as out of
  range, are outside the model.
\<close>

datatype numeric = NaN | Num int nat

definition is_space :: "char \<Rightarrow> bool" where
  "is_space c = (c \<in> set [CHR '' '', CHR 0x09, CHR 0x0A, CHR 0x0B, CHR 0x0C, CHR 0x0D])"

definition is_digit :: "char \<Rightarrow> bool" where
  "is_digit c = (c \<in> set ''0123456789'')"

definition digits_val :: "string \<Rightarrow> nat" where
  "digits_val ds = foldl (\<lambda>n c. 10 * n + (of_char c - 48)) 0 ds"

definition to_numeric :: "string \<Rightarrow> numeric" where
  "to_numeric s =
     (let s1 = dropWhile is_space s;
          negative = (case s1 of c # _ \<Rightarrow> c = CHR ''-'' | [] \<Rightarrow> False);
          s2 = (case s1 of c # r \<Rightarrow> if c = CHR ''-'' \<or> c = CHR ''+'' then r else s1 | [] \<Rightarrow> []);
          int_part = takeWhile is_digit s2;
          s3 = dropWhile is_digit s2;
          frac_part = (case s3 of c # r \<Rightarrow> if c = CHR ''.'' then takeWhile is_digit r else []
                       | [] \<Rightarrow> []);
          s4 = (case s3 of c # r \<Rightarrow> if c = CHR ''.'' then dropWhile is_digit r else s3
                | [] \<Rightarrow> []);
          s5 = dropWhile is_space s4
      in if int_part @ frac_part = [] \<or> s5 \<noteq> [] then NaN
         else Num ((if negative then - 1 else 1) * int (digits_val (int_part @ frac_part)))
                  (length frac_part))"

definition coerce_cell :: "string \<Rightarrow> numeric" where
  "coerce_cell c = to_numeric (str_replace c)"

text \<open>
  \<open>astype('int32')\<close> raises on a missing value, cuts a fractional part off and, on a
  column of 64-bit integers, keeps the low 32 bits. On a column held in double
  precision the conversion goes through the double: it gives the same result for every
  number in the \<open>int32\<close> range written with up to 15 digits, and the statements below
  that speak of values of such columns are limited to that range.
\<close>

type_synonym int32 = "32 word"

definition astype_int32 :: "numeric \<Rightarrow> error + int32" where
  "astype_int32 x =
     (case x of
        NaN \<Rightarrow> Inl IntCastingNaNError
      | Num m d \<Rightarrow> Inr (word_of_int (sgn m * (\<bar>m\<bar> div 10 ^ d))))"

fun astype_cells :: "numeric list \<Rightarrow> error + int32 list" where
  "astype_cells [] = Inr []"
| "astype_cells (x # xs) =
     (case astype_int32 x of
        Inl e \<Rightarrow> Inl e
      | Inr w \<Rightarrow> (case astype_cells xs of Inl e \<Rightarrow> Inl e | Inr ws \<Rightarrow> Inr (w # ws)))"

fun astype_rows :: "numeric row list \<Rightarrow> error + int32 row list" where
  "astype_rows [] = Inr []"
| "astype_rows (r # rs) =
     (case astype_cells (loci r) of
        Inl e \<Rightarrow> Inl e
      | Inr ws \<Rightarrow>
          (case astype_rows rs of
             Inl e \<Rightarrow> Inl e
           | Inr rs' \<Rightarrow> Inr (\<lparr>filename = filename r, scheme = scheme r, ST = ST r, loci = ws\<rparr> # rs')))"

text \<open>
  Lines 174 to 176 read each locus column by its label. \<open>dataframe_clean[col]\<close> is one
  column when the label occurs once among the column labels; when it occurs twice the
  result is a table, which has no \<open>.str\<close>, and the read raises \<open>AttributeError\<close>. That
  happens when the first row of the input has the same gene name, or the sentinel
  \<open>-\<close>, in two locus fields.
\<close>

definition labels_unique :: "'a dataframe \<Rightarrow> bool" where
  "labels_unique df = list_all (\<lambda>col. count_list (columns df) col = 1) (genes df)"

definition numeric_copy :: "string dataframe \<Rightarrow> error + numeric row list" where
  "numeric_copy dataframe =
     (if labels_unique dataframe then Inr (map (map_loci coerce_cell) (rows dataframe))
      else Inl AttributeError)"

text \<open>
  The two filters of lines 177 and 178, and the stage itself. The cast of the failed
  table (\<open>errors='ignore'\<close>) selects no rows and leaves text that is not a numeral as it
  is; it is not modelled: the failed table is the selection of the original rows.
\<close>

definition filter_nan :: "numeric row list \<Rightarrow> bool list" where
  "filter_nan rs = map (\<lambda>r. NaN \<in> set (loci r)) rs"

definition filter_no_ST :: "'a row list \<Rightarrow> bool list" where
  "filter_no_ST rs = map (\<lambda>r. ST r = ''-'') rs"

definition clean_dataframe_alleles ::
  "string dataframe \<Rightarrow> error + (int32 dataframe \<times> string dataframe)" where
  "clean_dataframe_alleles dataframe =
     (case numeric_copy dataframe of
        Inl e \<Rightarrow> Inl e
      | Inr dataframe_clean \<Rightarrow>
          (let fnan = filter_nan dataframe_clean;
               fnoST = filter_no_ST dataframe_clean;
               dataframe_clean' =
                 bool_index dataframe_clean (map2 (\<lambda>n s. \<not> n \<and> \<not> s) fnan fnoST);
               dataframe_failed_alleles =
                 bool_index (rows dataframe) (map2 (\<lambda>n s. n \<or> s) fnan fnoST)
           in case astype_rows dataframe_clean' of
                Inl e \<Rightarrow> Inl e
              | Inr typed \<Rightarrow>
                  Inr (\<lparr>genes = genes dataframe, rows = typed\<rparr>,
                       \<lparr>genes = genes dataframe, rows = dataframe_failed_alleles\<rparr>)))"

section \<open>Output Formatter and the whole run\<close>

text \<open>
  A written file is a header and lines of cells. \<open>drop\<close> removes the columns with the
  given labels and raises \<open>KeyError\<close> when a label is not a column.
\<close>

datatype cell = Text string | Int32 int32

type_synonym sheet = "string list \<times> cell list list"

definition to_sheet :: "('a \<Rightarrow> cell) \<Rightarrow> 'a dataframe \<Rightarrow> sheet" where
  "to_sheet f df =
     (columns df,
      map (\<lambda>r. Text (filename r) # Text (scheme r) # Text (ST r) # map f (loci r)) (rows df))"

definition drop_columns :: "string list \<Rightarrow> sheet \<Rightarrow> error + sheet" where
  "drop_columns labels sh =
     (case sh of (header, lines) \<Rightarrow>
        if \<exists>l \<in> set labels. l \<notin> set header then Inl KeyError
        else Inr (filter (\<lambda>l. l \<notin> set labels) header,
                  map (\<lambda>ln. map snd (filter (\<lambda>p. fst p \<notin> set labels) (zip header ln))) lines))"

record args =
  mlst_files :: "mlst_file list option"
  mlst_summary :: "(error + string list list) option"
  scheme_opt :: "string option"
  out :: string
  not_scheme :: "string option"
  failed_alleles :: "string option"
  nr_loci :: int
  include_filename :: bool

definition write_outputs ::
  "args \<Rightarrow> int32 dataframe \<Rightarrow> string dataframe \<Rightarrow> string dataframe
     \<Rightarrow> error + (string \<times> sheet) list" where
  "write_outputs a df df_not_scheme df_failed_alleles =
     (case (if \<not> include_filename a
            then drop_columns [''file'', ''scheme''] (to_sheet Int32 df)
            else Inr (to_sheet Int32 df)) of
        Inl e \<Rightarrow> Inl e
      | Inr primary \<Rightarrow>
          Inr ((out a, primary)
               # (case not_scheme a of
                    Some p \<Rightarrow> [(p, to_sheet Text df_not_scheme)] | None \<Rightarrow> [])
               @ (case failed_alleles a of
                    Some p \<Rightarrow> [(p, to_sheet Text df_failed_alleles)] | None \<Rightarrow> [])))"

definition read_input :: "args \<Rightarrow> string list list io" where
  "read_input a =
     (case mlst_files a of
        Some fs \<Rightarrow>
          and_then (read_mlst_files fs (nr_loci a))
            (\<lambda>df. case mlst_summary a of
                    Some s \<Rightarrow> ([], read_mlst_summary s) | None \<Rightarrow> ([], Inr df))
      | None \<Rightarrow>
          (case mlst_summary a of
             Some s \<Rightarrow> ([], read_mlst_summary s)
           | None \<Rightarrow> ([], Inl UnboundLocalError)))"

text \<open>Lines 189 to 196 of \<open>main\<close>: the stages up to the three tables.\<close>

definition run_stages ::
  "args \<Rightarrow> (int32 dataframe \<times> string dataframe \<times> string dataframe) io" where
  "run_stages a =
     and_then (read_input a) (\<lambda>raw.
     and_then ([], fix_header raw) (\<lambda>df.
     and_then (select_scheme df (scheme_opt a)) (\<lambda>sch.
       (case clean_dataframe_scheme df sch of
          (df', df_not_scheme) \<Rightarrow>
            and_then ([], clean_dataframe_alleles df') (\<lambda>(df'', df_failed_alleles).
              ([], Inr (df'', df_not_scheme, df_failed_alleles)))))))"

definition main :: "args \<Rightarrow> (string \<times> sheet) list io" where
  "main a =
     and_then (run_stages a) (\<lambda>(df, df_not_scheme, df_failed_alleles).
       ([], write_outputs a df df_not_scheme df_failed_alleles))"

section \<open>Notions of the specification\<close>

text \<open>
  A row is complete when no locus cell is coerced to the missing marker and its \<open>ST\<close>
  is not the sentinel. A clean row is the row of the same sample as a source row when
  it carries the same identification columns; it is the typed row of the source row
  when its locus values are, in addition, the \<open>int32\<close> values of the coerced cells.
\<close>

definition is_complete :: "string row \<Rightarrow> bool" where
  "is_complete r = (NaN \<notin> set (map coerce_cell (loci r)) \<and> ST r \<noteq> ''-'')"

definition same_sample :: "'a row \<Rightarrow> 'b row \<Rightarrow> bool" where
  "same_sample t r = (filename t = filename r \<and> scheme t = scheme r \<and> ST t = ST r)"

definition typed_row_of :: "int32 row \<Rightarrow> string row \<Rightarrow> bool" where
  "typed_row_of t r =
     (filename t = filename r \<and> scheme t = scheme r \<and> ST t = ST r
      \<and> map Inr (loci t) = map (\<lambda>c. astype_int32 (coerce_cell c)) (loci r))"

text \<open>
  Parsing text as an integer, in the specification's sense: an optional sign and
  decimal digits, with blanks allowed around them.
\<close>

definition trim_right :: "string \<Rightarrow> string" where
  "trim_right s = rev (dropWhile is_space (rev s))"

definition parse_integer :: "string \<Rightarrow> int option" where
  "parse_integer s =
     (let t = trim_right (dropWhile is_space s);
          negative = (case t of c # _ \<Rightarrow> c = CHR ''-'' | [] \<Rightarrow> False);
          ds = (case t of c # r \<Rightarrow> if c = CHR ''-'' \<or> c = CHR ''+'' then r else t | [] \<Rightarrow> [])
      in if ds \<noteq> [] \<and> list_all is_digit ds
         then Some ((if negative then - 1 else 1) * int (digits_val ds))
         else None)"

text \<open>
  A locus designation \<open>gene(alleleId)\<close>, with the allele id written in decimal.
\<close>

fun decimal :: "nat \<Rightarrow> string" where
  "decimal n =
     (if n < 10 then [''0123456789'' ! n]
      else decimal (n div 10) @ [''0123456789'' ! (n mod 10)])"

definition designation :: "string \<Rightarrow> nat \<Rightarrow> string" where
  "designation gene allele_id = gene @ ''('' @ decimal allele_id @ '')''"

declare decimal.simps [simp del]

section \<open>Boolean indexing and filters\<close>

lemma bool_index_map_pred: "bool_index xs (map P xs) = filter P xs"
  by (induction xs) (simp_all add: bool_index_def)

lemma bool_index_map_not: "bool_index xs (map Not (map P xs)) = filter (\<lambda>x. \<not> P x) xs"
  using bool_index_map_pred [of xs "\<lambda>x. \<not> P x"] by (simp add: comp_def)

lemma bool_index_map: "bool_index (map f xs) (map P xs) = map f (filter P xs)"
  by (induction xs) (simp_all add: bool_index_def)

lemma mset_three_way:
  "mset (filter P xs) + mset (filter (\<lambda>x. \<not> P x \<and> \<not> Q x) xs)
     + mset (filter (\<lambda>x. \<not> P x \<and> Q x) xs) = mset xs"
  by (induction xs) auto

lemma list_all2_pick:
  "list_all2 P xs ys \<Longrightarrow> y \<in> set ys \<Longrightarrow> \<exists>x \<in> set xs. P x y"
  by (induction rule: list_all2_induct) auto

section \<open>The Scheme Partitioner\<close>

lemma clean_dataframe_scheme_rows:
  "clean_dataframe_scheme df sch =
     (\<lparr>genes = genes df, rows = filter (\<lambda>r. scheme r = sch) (rows df)\<rparr>,
      \<lparr>genes = genes df, rows = filter (\<lambda>r. scheme r \<noteq> sch \<and> scheme r \<noteq> ''-'') (rows df)\<rparr>)"
  by (simp add: clean_dataframe_scheme_def Let_def bool_index_map_pred bool_index_map_not conj_commute)

text \<open>
  Claim C5. For every table and every selected scheme label, the matched table holds
  exactly the rows whose scheme is the label; the mismatched table holds the other rows
  except those whose scheme is the sentinel \<open>-\<close>; no row is in both; and matched,
  mismatched and the dropped sentinel rows together are the rows of the input, each as
  often as it occurs there.
\<close>

theorem scheme_partition:
  "rows (fst (clean_dataframe_scheme df sch)) = filter (\<lambda>r. scheme r = sch) (rows df)
   \<and> rows (snd (clean_dataframe_scheme df sch))
       = filter (\<lambda>r. scheme r \<noteq> sch \<and> scheme r \<noteq> ''-'') (rows df)
   \<and> set (rows (fst (clean_dataframe_scheme df sch)))
       \<inter> set (rows (snd (clean_dataframe_scheme df sch))) = {}
   \<and> mset (rows (fst (clean_dataframe_scheme df sch)))
       + mset (rows (snd (clean_dataframe_scheme df sch)))
       + mset (filter (\<lambda>r. scheme r \<noteq> sch \<and> scheme r = ''-'') (rows df)) = mset (rows df)"
proof -
  have d: "set (filter (\<lambda>r. scheme r = sch) (rows df))
      \<inter> set (filter (\<lambda>r. scheme r \<noteq> sch \<and> scheme r \<noteq> ''-'') (rows df)) = {}"
    by auto
  have m: "mset (filter (\<lambda>r. scheme r = sch) (rows df))
      + mset (filter (\<lambda>r. scheme r \<noteq> sch \<and> scheme r \<noteq> ''-'') (rows df))
      + mset (filter (\<lambda>r. scheme r \<noteq> sch \<and> scheme r = ''-'') (rows df)) = mset (rows df)"
    using mset_three_way [of "\<lambda>r. scheme r = sch" "rows df" "\<lambda>r. scheme r = ''-''"] by simp
  show ?thesis
    unfolding clean_dataframe_scheme_rows using d m by simp
qed

section \<open>The Record Ingestor\<close>

text \<open>
  Claim C4 says that the ingestion fails only when no file yields a usable row, and that
  a defect of one file never ends the run. An empty file and a file of other
  dimensions are indeed skipped, and the row of the third file is returned. A file
  that holds a single line break is not empty for line 30, and \<open>pd.read_table\<close> raises
  \<open>EmptyDataError\<close> for it in line 31: the run ends there, although the next file
  holds a usable row.
\<close>

theorem read_mlst_files_blank_file:
  "read_mlst_files
     [\<lparr>path = ''a.tsv'', st_size = Inr 0, parsed = Inl EmptyDataError\<rparr>,
      \<lparr>path = ''b.tsv'', st_size = Inr 20, parsed = Inr [[''b.fa'', ''ecoli'', ''10'']]\<rparr>,
      \<lparr>path = ''c.tsv'', st_size = Inr 40,
        parsed = Inr [[''c.fa'', ''ecoli'', ''10'', ''adk(10)'', ''fumC(11)'']]\<rparr>] 2
   = ([Skipped_empty ''a.tsv'', Skipped_dimensions ''b.tsv'', Combined 1],
      Inr [[''c.fa'', ''ecoli'', ''10'', ''adk(10)'', ''fumC(11)'']])
   \<and> read_mlst_files
     [\<lparr>path = ''blank.tsv'', st_size = Inr 1, parsed = Inl EmptyDataError\<rparr>,
      \<lparr>path = ''c.tsv'', st_size = Inr 40,
        parsed = Inr [[''c.fa'', ''ecoli'', ''10'', ''adk(10)'', ''fumC(11)'']]\<rparr>] 2
   = ([], Inl EmptyDataError)"
  by (simp add: read_mlst_files_def read_file_def and_then_def has_shape_1_def)

section \<open>The Scheme Selector\<close>

lemma set_uniques [simp]: "set (uniques xs) = set xs"
  by (simp add: uniques_def)

lemma distinct_uniques [simp]: "distinct (uniques xs)"
  by (simp add: uniques_def)

lemma filter_eq_distinct:
  "distinct us \<Longrightarrow> filter (\<lambda>v. v = s) us = (if s \<in> set us then [s] else [])"
  by (induction us) auto

lemma filter_value_counts:
  "filter (\<lambda>p. fst p = s) (value_counts xs)
     = (if s \<in> set xs then [(s, count_list xs s)] else [])"
proof -
  have "filter (\<lambda>p. fst p = s) (map (\<lambda>v. (v, count_list xs v)) (uniques xs))
          = map (\<lambda>v. (v, count_list xs v)) (filter (\<lambda>v. v = s) (uniques xs))"
    by (simp add: filter_map comp_def)
  then show ?thesis
    by (simp add: value_counts_def filter_sort filter_eq_distinct)
qed

text \<open>
  Claim C6 says that, for every selected scheme, the warning is printed exactly when the
  scheme covers less than 75 percent of the rows. A scheme given by the caller that
  occurs in no row covers 0 percent of the table, and the stage prints no warning and
  returns no scheme: \<open>int\<close> of the empty selection of counts raises \<open>TypeError\<close> in
  line 119.
\<close>

theorem select_scheme_warning_absent:
  "select_scheme
     \<lparr>genes = [''adk''],
      rows = [\<lparr>filename = ''a.fa'', scheme = ''scheme1'', ST = ''1'', loci = [''adk(1)'']\<rparr>]\<rparr>
     (Some ''scheme2'')
   = ([], Inl TypeError)
   \<and> (of_nat (count_list [''scheme1''] ''scheme2'') / of_nat (length [''scheme1''])) * 100
       < (75 :: rat)"
proof
  show "select_scheme
     \<lparr>genes = [''adk''],
      rows = [\<lparr>filename = ''a.fa'', scheme = ''scheme1'', ST = ''1'', loci = [''adk(1)'']\<rparr>]\<rparr>
     (Some ''scheme2'')
   = ([], Inl TypeError)"
    by code_simp
  show "(of_nat (count_list [''scheme1''] ''scheme2'') / of_nat (length [''scheme1''])) * 100
       < (75 :: rat)"
    by simp
qed

text \<open>
  Claim C10. For every table and every scheme given by the caller that does not occur in
  the scheme column, the stage prints nothing and raises \<open>TypeError\<close>: the selection of
  counts that \<open>int\<close> converts is empty.
\<close>

theorem select_scheme_absent:
  assumes "s \<notin> set (map scheme (rows df))"
  shows "select_scheme df (Some s) = ([], Inl TypeError)"
proof -
  have f: "filter (\<lambda>p. fst p = s) (value_counts (map scheme (rows df))) = []"
    using assms by (simp only: filter_value_counts if_False)
  show ?thesis
    unfolding select_scheme_def Let_def choose_scheme_def by (simp add: f)
qed

theorem select_scheme_absent_witness:
  "select_scheme
     \<lparr>genes = [''adk''],
      rows = [\<lparr>filename = ''a.fa'', scheme = ''ecoli'', ST = ''10'', loci = [''adk(10)'']\<rparr>,
              \<lparr>filename = ''b.fa'', scheme = ''-'', ST = ''-'', loci = [''-'']\<rparr>]\<rparr>
     (Some ''senterica'')
   = ([], Inl TypeError)"
  using select_scheme_absent
    [of "''senterica''" "\<lparr>genes = [''adk''],
      rows = [\<lparr>filename = ''a.fa'', scheme = ''ecoli'', ST = ''10'', loci = [''adk(10)'']\<rparr>,
              \<lparr>filename = ''b.fa'', scheme = ''-'', ST = ''-'', loci = [''-'']\<rparr>]\<rparr>"]
  by simp

section \<open>Integer text and the numeric parser\<close>

lemma digit_not_space: "is_digit c \<Longrightarrow> \<not> is_space c"
  by (auto simp: is_digit_def is_space_def)

lemma dot_not_space: "\<not> is_space (CHR ''.'')"
  by (simp add: is_space_def)

lemma dropWhile_snoc_keep: "\<not> P c \<Longrightarrow> dropWhile P (xs @ [c]) = dropWhile P xs @ [c]"
  by (induction xs) auto

lemma trim_right_Cons: "\<not> is_space c \<Longrightarrow> trim_right (c # r) = c # trim_right r"
  by (simp add: trim_right_def dropWhile_snoc_keep)

lemma trim_right_split: "\<exists>w. u = trim_right u @ w \<and> list_all is_space w"
proof -
  have "rev u = takeWhile is_space (rev u) @ dropWhile is_space (rev u)" by simp
  then have "u = rev (dropWhile is_space (rev u)) @ rev (takeWhile is_space (rev u))"
    by (metis rev_append rev_rev_ident)
  moreover have "list_all is_space (rev (takeWhile is_space (rev u)))"
    by (simp add: list_all_iff) (meson set_takeWhileD)
  ultimately show ?thesis unfolding trim_right_def by blast
qed

lemma trim_right_digits_spaces:
  assumes "a \<noteq> []" "list_all is_digit a" "list_all is_space b"
  shows "trim_right (a @ b) = a"
proof -
  have "dropWhile is_space (rev b @ rev a) = dropWhile is_space (rev a)"
    using assms(3) by (intro dropWhile_append2) (simp add: list_all_iff)
  moreover have "\<not> is_space (hd (rev a))"
    using assms(1,2) by (simp add: hd_rev list_all_iff digit_not_space)
  then have "dropWhile is_space (rev a) = rev a"
    using assms(1) by (cases "rev a") auto
  ultimately show ?thesis by (simp add: trim_right_def)
qed

lemma takeWhile_digits_spaces:
  assumes "list_all is_digit a" "list_all is_space b"
  shows "takeWhile is_digit (a @ b) = a" and "dropWhile is_digit (a @ b) = b"
proof -
  have b: "takeWhile is_digit b = []" "dropWhile is_digit b = b"
    using assms(2) by (cases b; auto simp: digit_not_space)+
  show "takeWhile is_digit (a @ b) = a" "dropWhile is_digit (a @ b) = b"
    using assms(1) b by (simp_all add: list_all_iff)
qed

text \<open>
The two scanners agree on the text after the sign.
\<close>

lemma scan_trim:
  "trim_right u \<noteq> [] \<and> list_all is_digit (trim_right u)
     \<Longrightarrow> takeWhile is_digit u = trim_right u \<and> list_all is_space (dropWhile is_digit u)"
proof -
  assume a: "trim_right u \<noteq> [] \<and> list_all is_digit (trim_right u)"
  obtain w where w: "u = trim_right u @ w" "list_all is_space w"
    using trim_right_split by blast
  have "takeWhile is_digit (trim_right u @ w) = trim_right u"
       "dropWhile is_digit (trim_right u @ w) = w"
    using takeWhile_digits_spaces a w(2) by blast+
  with w show ?thesis by metis
qed


lemma parse_integer_Nil:
  assumes d: "dropWhile is_space s = []"
  shows "parse_integer s = None"
  unfolding parse_integer_def trim_right_def d by simp


lemma parse_integer_Cons:
  assumes "dropWhile is_space s = c # r"
  shows "parse_integer s =
    (let u = (if c = CHR ''-'' \<or> c = CHR ''+'' then r else c # r) in
     if trim_right u \<noteq> [] \<and> list_all is_digit (trim_right u)
     then Some ((if c = CHR ''-'' then - 1 else 1) * int (digits_val (trim_right u)))
     else None)"
proof -
  have "\<not> is_space c" using assms by (metis hd_dropWhile list.sel(1) list.distinct(1))
  then have "trim_right (c # r) = c # trim_right r" by (rule trim_right_Cons)
  then show ?thesis using assms by (simp add: parse_integer_def Let_def)
qed

lemma to_numeric_Cons:
  assumes "dropWhile is_space s = c # r"
  shows "to_numeric s =
    (let u = (if c = CHR ''-'' \<or> c = CHR ''+'' then r else c # r);
         int_part = takeWhile is_digit u;
         s3 = dropWhile is_digit u;
         frac_part = (case s3 of c # r \<Rightarrow> if c = CHR ''.'' then takeWhile is_digit r else []
                      | [] \<Rightarrow> []);
         s4 = (case s3 of c # r \<Rightarrow> if c = CHR ''.'' then dropWhile is_digit r else s3
               | [] \<Rightarrow> [])
     in if int_part @ frac_part = [] \<or> dropWhile is_space s4 \<noteq> [] then NaN
        else Num ((if c = CHR ''-'' then - 1 else 1) * int (digits_val (int_part @ frac_part)))
                 (length frac_part))"
  using assms by (simp add: to_numeric_def Let_def)

lemma no_dot_tail:
  assumes "CHR ''.'' \<notin> set s3"
  shows "(case s3 of c # r \<Rightarrow> if c = CHR ''.'' then f r else [] | [] \<Rightarrow> []) = []"
    and "(case s3 of c # r \<Rightarrow> if c = CHR ''.'' then g r else s3 | [] \<Rightarrow> []) = s3"
  using assms by (cases s3; auto)+

lemma to_numeric_integer:
  assumes "parse_integer s = Some v"
  shows "to_numeric s = Num v 0"
proof (cases "dropWhile is_space s")
  case Nil
  then show ?thesis using assms by (simp add: parse_integer_Nil)
next
  case (Cons c r)
  define u where "u = (if c = CHR ''-'' \<or> c = CHR ''+'' then r else c # r)"
  from assms have ok: "trim_right u \<noteq> [] \<and> list_all is_digit (trim_right u)"
    and v: "v = (if c = CHR ''-'' then - 1 else 1) * int (digits_val (trim_right u))"
    unfolding parse_integer_Cons [OF Cons] Let_def u_def by (auto split: if_splits)
  from scan_trim [OF ok] have tw: "takeWhile is_digit u = trim_right u"
    and sp: "list_all is_space (dropWhile is_digit u)" by simp_all
  have nd: "CHR ''.'' \<notin> set (dropWhile is_digit u)"
    using sp dot_not_space by (auto simp: list_all_iff)
  have d: "dropWhile is_space (dropWhile is_digit u) = []"
    using sp by (simp add: list_all_iff)
  show ?thesis
    unfolding to_numeric_Cons [OF Cons] Let_def u_def [symmetric] no_dot_tail [OF nd]
    using ok tw d v by simp
qed


section \<open>Designations\<close>

lemma digit_cases: "d < 10 \<Longrightarrow> (d::nat) \<in> {0,1,2,3,4,5,6,7,8,9}"
  by auto

lemma is_digit_char_of: "d < 10 \<Longrightarrow> is_digit (''0123456789'' ! d)"
  using digit_cases [of d] by (auto simp: is_digit_def)

lemma digit_val_char_of: "d < 10 \<Longrightarrow> (of_char (''0123456789'' ! d) :: nat) - 48 = d"
  using digit_cases [of d] by auto

lemma decimal_digits: "list_all is_digit (decimal n)"
proof (induction n rule: decimal.induct)
  case (1 n)
  show ?case
  proof (cases "n < 10")
    case True
    then show ?thesis by (simp add: decimal.simps [of n] is_digit_char_of)
  next
    case False
    with 1 show ?thesis by (simp add: decimal.simps [of n] is_digit_char_of)
  qed
qed

lemma decimal_not_Nil: "decimal n \<noteq> []"
  by (simp add: decimal.simps [of n])

lemma digits_val_snoc: "digits_val (ds @ [c]) = 10 * digits_val ds + (of_char c - 48)"
  by (simp add: digits_val_def)

lemma digits_val_decimal: "digits_val (decimal n) = n"
proof (induction n rule: decimal.induct)
  case (1 n)
  show ?case
  proof (cases "n < 10")
    case True
    then show ?thesis by (simp add: decimal.simps [of n] digits_val_def digit_val_char_of)
  next
    case False
    with 1 show ?thesis by (simp add: decimal.simps [of n] digits_val_snoc digit_val_char_of)
  qed
qed

lemma digit_kept: "is_digit c \<Longrightarrow> \<not> (is_letter c \<or> c = CHR ''('' \<or> c = CHR '')'')"
  by (auto simp: is_digit_def is_letter_def)

lemma str_replace_designation:
  assumes "list_all is_letter g"
  shows "str_replace (designation g n) = decimal n"
proof -
  have "filter (\<lambda>c. \<not> (is_letter c \<or> c = CHR ''('' \<or> c = CHR '')'')) g = []"
    using assms by (simp add: list_all_iff)
  moreover have "filter (\<lambda>c. \<not> (is_letter c \<or> c = CHR ''('' \<or> c = CHR '')'')) (decimal n) = decimal n"
    using decimal_digits [of n] digit_kept by (simp add: list_all_iff)
  ultimately show ?thesis by (simp add: str_replace_def designation_def)
qed

lemma parse_integer_decimal: "parse_integer (decimal n) = Some (int n)"
proof -
  obtain c r where cr: "decimal n = c # r" using decimal_not_Nil by (cases "decimal n") auto
  have dg: "list_all is_digit (c # r)" using decimal_digits [of n] cr by simp
  then have c: "is_digit c" by simp
  then have ns: "\<not> is_space c" by (rule digit_not_space)
  have sg: "c \<noteq> CHR ''-''" "c \<noteq> CHR ''+''" using c by (auto simp: is_digit_def)
  have d: "dropWhile is_space (decimal n) = c # r" using cr ns by simp
  have t: "trim_right (c # r) = c # r"
    using trim_right_digits_spaces [of "c # r" "[]"] dg by simp
  show ?thesis
    unfolding parse_integer_Cons [OF d] Let_def using sg t dg digits_val_decimal [of n] cr
    by simp
qed

lemma coerce_designation:
  "list_all is_letter g \<Longrightarrow> coerce_cell (designation g n) = Num (int n) 0"
  by (simp add: coerce_cell_def str_replace_designation to_numeric_integer parse_integer_decimal)

lemma sint_int32: "0 \<le> k \<Longrightarrow> k < 2 ^ 31 \<Longrightarrow> sint (word_of_int k :: int32) = k"
  by (simp add: sint_sbintrunc' signed_take_bit_int_eq_self)

lemma astype_int32_integer: "astype_int32 (Num k 0) = Inr (word_of_int k)"
proof -
  have "sgn k * (\<bar>k\<bar> div 10 ^ 0) = k" by (simp add: mult_sgn_abs)
  then show ?thesis unfolding astype_int32_def by (simp only: numeric.case)
qed

lemma typed_designation:
  assumes "list_all is_letter g" "n < 2 ^ 31"
  shows "\<exists>w. astype_int32 (coerce_cell (designation g n)) = Inr w \<and> sint w = int n"
proof -
  have "sint (word_of_int (int n) :: int32) = int n"
    using assms(2) by (intro sint_int32) simp_all
  then show ?thesis
    using assms(1) by (simp only: coerce_designation astype_int32_integer) blast
qed

section \<open>The Allele Validator\<close>

lemma astype_cells_iff: "astype_cells xs = Inr ws \<longleftrightarrow> map astype_int32 xs = map Inr ws"
proof (induction xs arbitrary: ws)
  case Nil
  then show ?case by auto
next
  case (Cons x xs)
  show ?case
  proof (cases ws)
    case Nil
    then show ?thesis by (auto split: sum.splits)
  next
    case (Cons w ws')
    then show ?thesis using Cons.IH [of ws'] by (auto split: sum.splits)
  qed
qed

lemma astype_cells_total: "NaN \<notin> set xs \<Longrightarrow> \<exists>ws. astype_cells xs = Inr ws"
proof (induction xs)
  case Nil
  then show ?case by simp
next
  case (Cons x xs)
  then obtain ws where "astype_cells xs = Inr ws" by auto
  moreover obtain m d where "x = Num m d" using Cons.prems by (cases x) auto
  ultimately show ?case by (simp add: astype_int32_def)
qed

lemma astype_rows_total:
  "\<forall>r \<in> set rs. NaN \<notin> set (loci r) \<Longrightarrow>
     \<exists>ts. astype_rows rs = Inr ts
        \<and> list_all2 (\<lambda>t r. filename t = filename r \<and> scheme t = scheme r \<and> ST t = ST r
                            \<and> map Inr (loci t) = map astype_int32 (loci r)) ts rs"
proof (induction rs)
  case Nil
  then show ?case by simp
next
  case (Cons r rs)
  then obtain ts where ts: "astype_rows rs = Inr ts"
     "list_all2 (\<lambda>t r. filename t = filename r \<and> scheme t = scheme r \<and> ST t = ST r
                            \<and> map Inr (loci t) = map astype_int32 (loci r)) ts rs"
    by auto
  obtain ws where ws: "astype_cells (loci r) = Inr ws"
    using Cons.prems astype_cells_total by auto
  then have "map Inr ws = map astype_int32 (loci r)" by (simp add: astype_cells_iff)
  with ts ws show ?case by simp
qed

lemma numeric_masks:
  "map2 (\<lambda>n s. \<not> n \<and> \<not> s) (filter_nan (map (map_loci coerce_cell) rs))
       (filter_no_ST (map (map_loci coerce_cell) rs))
     = map is_complete rs"
  "map2 (\<lambda>n s. n \<or> s) (filter_nan (map (map_loci coerce_cell) rs))
       (filter_no_ST (map (map_loci coerce_cell) rs))
     = map (\<lambda>r. \<not> is_complete r) rs"
  by (simp_all add: filter_nan_def filter_no_ST_def is_complete_def map_loci_def
        zip_map_map comp_def zip_same_conv_map)

lemma alleles_not_unique:
  "\<not> labels_unique df \<Longrightarrow> clean_dataframe_alleles df = Inl AttributeError"
  by (simp add: clean_dataframe_alleles_def numeric_copy_def)

text \<open>
  On a table whose locus labels are unique the stage does not raise: the rows that
  reach the cast hold no missing value. The clean table is the typed image of the
  complete rows, in order, and the failed table is the list of the other rows,
  unchanged.
\<close>

lemma clean_dataframe_alleles_char:
  assumes "labels_unique df"
  shows "\<exists>clean. clean_dataframe_alleles df
       = Inr (\<lparr>genes = genes df, rows = clean\<rparr>,
              \<lparr>genes = genes df, rows = filter (\<lambda>r. \<not> is_complete r) (rows df)\<rparr>)
     \<and> list_all2 typed_row_of clean (filter is_complete (rows df))"
proof -
  let ?kept = "map (map_loci coerce_cell) (filter is_complete (rows df))"
  have "\<forall>r \<in> set ?kept. NaN \<notin> set (loci r)"
    by (auto simp: is_complete_def map_loci_def)
  from astype_rows_total [OF this] obtain ts where ts: "astype_rows ?kept = Inr ts"
    "list_all2 (\<lambda>t r. filename t = filename r \<and> scheme t = scheme r \<and> ST t = ST r
                            \<and> map Inr (loci t) = map astype_int32 (loci r)) ts ?kept"
    by blast
  have "list_all2 typed_row_of ts (filter is_complete (rows df))"
    using ts(2) by (simp add: list_all2_map2 typed_row_of_def [abs_def] map_loci_def comp_def)
  moreover have "clean_dataframe_alleles df
       = Inr (\<lparr>genes = genes df, rows = ts\<rparr>,
              \<lparr>genes = genes df, rows = filter (\<lambda>r. \<not> is_complete r) (rows df)\<rparr>)"
    unfolding clean_dataframe_alleles_def numeric_copy_def Let_def
    using ts(1) assms by (simp add: numeric_masks bool_index_map bool_index_map_pred)
  ultimately show ?thesis by blast
qed

lemma typed_same_sample: "typed_row_of t r \<Longrightarrow> same_sample t r"
  by (simp add: typed_row_of_def same_sample_def)

lemma alleles_partition:
  assumes "labels_unique df"
  shows "\<exists>clean failed kept.
     clean_dataframe_alleles df = Inr (clean, failed)
     \<and> list_all2 same_sample (rows clean) kept
     \<and> mset kept + mset (rows failed) = mset (rows df)
     \<and> set kept \<inter> set (rows failed) = {}
     \<and> length (rows clean) + length (rows failed) = length (rows df)"
proof -
  obtain clean where c: "clean_dataframe_alleles df
       = Inr (\<lparr>genes = genes df, rows = clean\<rparr>,
              \<lparr>genes = genes df, rows = filter (\<lambda>r. \<not> is_complete r) (rows df)\<rparr>)"
     "list_all2 typed_row_of clean (filter is_complete (rows df))"
    using clean_dataframe_alleles_char [OF assms] by blast
  have s: "list_all2 same_sample clean (filter is_complete (rows df))"
    using c(2) by (rule list_all2_mono) (rule typed_same_sample)
  have l: "length clean = length (filter is_complete (rows df))"
    using c(2) by (rule list_all2_lengthD)
  have "length (filter is_complete (rows df)) + length (filter (\<lambda>r. \<not> is_complete r) (rows df))
          = length (rows df)"
    by (rule sum_length_filter_compl)
  moreover have "set (filter is_complete (rows df))
          \<inter> set (filter (\<lambda>r. \<not> is_complete r) (rows df)) = {}"
    by auto
  moreover have "mset (filter is_complete (rows df))
          + mset (filter (\<lambda>r. \<not> is_complete r) (rows df)) = mset (rows df)"
    by simp
  ultimately show ?thesis using c(1) s l
    by (intro exI [of _ "\<lparr>genes = genes df, rows = clean\<rparr>"]
              exI [of _ "\<lparr>genes = genes df, rows = filter (\<lambda>r. \<not> is_complete r) (rows df)\<rparr>"]
              exI [of _ "filter is_complete (rows df)"]) simp
qed

text \<open>
  Claim C1 says that, for every input table, the clean and the failed table partition
  its rows. A sample with two untyped loci is placed in the failed table
  when it is the second row of the input. When it is the first row, \<open>fix_header\<close>
  derives the label \<open>-\<close> for both locus columns, the read of the column \<open>-\<close> in line
  175 gives a table, and the stage raises \<open>AttributeError\<close>: there is no clean and no
  failed table.
\<close>

theorem alleles_duplicate_labels:
  "fix_header [[''a.fa'', ''ecoli'', ''-'', ''-'', ''-''],
               [''b.fa'', ''ecoli'', ''10'', ''adk(3)'', ''fumC(4)'']]
   = Inr \<lparr>genes = [''-'', ''-''],
          rows = [\<lparr>filename = ''a.fa'', scheme = ''ecoli'', ST = ''-'', loci = [''-'', ''-'']\<rparr>,
                  \<lparr>filename = ''b.fa'', scheme = ''ecoli'', ST = ''10'',
                    loci = [''adk(3)'', ''fumC(4)'']\<rparr>]\<rparr>
   \<and> clean_dataframe_alleles
       \<lparr>genes = [''-'', ''-''],
        rows = [\<lparr>filename = ''a.fa'', scheme = ''ecoli'', ST = ''-'', loci = [''-'', ''-'']\<rparr>,
                \<lparr>filename = ''b.fa'', scheme = ''ecoli'', ST = ''10'',
                  loci = [''adk(3)'', ''fumC(4)'']\<rparr>]\<rparr>
     = Inl AttributeError
   \<and> fix_header [[''b.fa'', ''ecoli'', ''10'', ''adk(3)'', ''fumC(4)''],
                 [''a.fa'', ''ecoli'', ''-'', ''-'', ''-'']]
   = Inr \<lparr>genes = [''adk'', ''fumC''],
          rows = [\<lparr>filename = ''b.fa'', scheme = ''ecoli'', ST = ''10'',
                    loci = [''adk(3)'', ''fumC(4)'']\<rparr>,
                  \<lparr>filename = ''a.fa'', scheme = ''ecoli'', ST = ''-'', loci = [''-'', ''-'']\<rparr>]\<rparr>
   \<and> clean_dataframe_alleles
       \<lparr>genes = [''adk'', ''fumC''],
        rows = [\<lparr>filename = ''b.fa'', scheme = ''ecoli'', ST = ''10'',
                  loci = [''adk(3)'', ''fumC(4)'']\<rparr>,
                \<lparr>filename = ''a.fa'', scheme = ''ecoli'', ST = ''-'', loci = [''-'', ''-'']\<rparr>]\<rparr>
     = Inr (\<lparr>genes = [''adk'', ''fumC''],
             rows = [\<lparr>filename = ''b.fa'', scheme = ''ecoli'', ST = ''10'', loci = [3, 4]\<rparr>]\<rparr>,
            \<lparr>genes = [''adk'', ''fumC''],
             rows = [\<lparr>filename = ''a.fa'', scheme = ''ecoli'', ST = ''-'',
                      loci = [''-'', ''-'']\<rparr>]\<rparr>)"
  by code_simp










text \<open>
  Claim C8, amended. For every row of a scheme-matched table with unique locus labels
  whose \<open>ST\<close> is not \<open>-\<close> and whose locus cells are designations \<open>gene(alleleId)\<close> with a
  gene name of ASCII letters only and an allele id below \<open>2^31\<close>, the clean table holds
  a row with the same identification columns whose locus values are exactly the allele
  ids.
\<close>

theorem designation_round_trip:
  assumes "labels_unique df" and "r \<in> set (rows df)" and "ST r \<noteq> ''-''"
      and "loci r = map (\<lambda>(g, n). designation g n) gns"
      and "\<forall>(g, n) \<in> set gns. list_all is_letter g \<and> n < 2 ^ 31"
  shows "\<exists>clean failed. clean_dataframe_alleles df = Inr (clean, failed)
           \<and> (\<exists>t \<in> set (rows clean). filename t = filename r \<and> scheme t = scheme r
                  \<and> ST t = ST r \<and> map sint (loci t) = map (\<lambda>(g, n). int n) gns)"
proof -
  have cell: "\<exists>w. astype_int32 (coerce_cell (designation g n)) = Inr w \<and> sint w = int n"
    if "(g, n) \<in> set gns" for g n
    using that assms(5) typed_designation by auto
  have "coerce_cell c \<noteq> NaN" if cin: "c \<in> set (loci r)" for c
  proof -
    obtain g n where gn: "(g, n) \<in> set gns" "c = designation g n"
      using cin assms(4) by auto
    from cell [OF gn(1)] gn(2) show ?thesis by (auto simp: astype_int32_def)
  qed
  then have "NaN \<notin> coerce_cell ` set (loci r)" by fastforce
  then have comp: "is_complete r" using assms(3) by (simp add: is_complete_def)
  obtain clean where c: "clean_dataframe_alleles df
       = Inr (\<lparr>genes = genes df, rows = clean\<rparr>,
              \<lparr>genes = genes df, rows = filter (\<lambda>r. \<not> is_complete r) (rows df)\<rparr>)"
     "list_all2 typed_row_of clean (filter is_complete (rows df))"
    using clean_dataframe_alleles_char [OF assms(1)] by blast
  from list_all2_pick [OF c(2), of r] assms(2) comp
  obtain t where t: "t \<in> set clean" "typed_row_of t r" by auto
  from t(2) have m: "map Inr (loci t) = map (\<lambda>c. astype_int32 (coerce_cell c)) (loci r)"
    by (simp add: typed_row_of_def)
  have "map sint (loci t) = map (\<lambda>(g, n). int n) gns"
  proof (rule nth_equalityI)
    show "length (map sint (loci t)) = length (map (\<lambda>(g, n). int n) gns)"
      using arg_cong [OF m, of length] assms(4) by simp
  next
    fix i assume "i < length (map sint (loci t))"
    then have i: "i < length (loci t)" by simp
    have len: "length (loci t) = length gns"
      using arg_cong [OF m, of length] assms(4) by simp
    obtain g n where gn: "gns ! i = (g, n)" by (cases "gns ! i")
    then have "(g, n) \<in> set gns" using i len by (metis nth_mem)
    from cell [OF this] obtain w
      where w: "astype_int32 (coerce_cell (designation g n)) = Inr w" "sint w = int n" by blast
    have "map Inr (loci t) ! i = map (\<lambda>c. astype_int32 (coerce_cell c)) (loci r) ! i"
      using m by simp
    then have "Inr (loci t ! i) = astype_int32 (coerce_cell (designation g n))"
      using i len gn assms(4) by simp
    then have "loci t ! i = w" using w(1) by simp
    then show "map sint (loci t) ! i = map (\<lambda>(g, n). int n) gns ! i"
      using i len gn w(2) by simp
  qed
  with t c(1) show ?thesis
    by (intro exI [of _ "\<lparr>genes = genes df, rows = clean\<rparr>"]
              exI [of _ "\<lparr>genes = genes df, rows = filter (\<lambda>r. \<not> is_complete r) (rows df)\<rparr>"])
       (auto simp: typed_row_of_def)
qed

theorem designation_round_trip_witness:
  "\<exists>clean failed.
     clean_dataframe_alleles
       \<lparr>genes = [''adk'', ''fumC''],
        rows = [\<lparr>filename = ''a.fa'', scheme = ''ecoli'', ST = ''10'',
                 loci = [''adk(10)'', ''fumC(2147483647)'']\<rparr>]\<rparr>
     = Inr (clean, failed)
     \<and> (\<exists>t \<in> set (rows clean). filename t = ''a.fa'' \<and> scheme t = ''ecoli'' \<and> ST t = ''10''
            \<and> map sint (loci t) = [10, 2147483647])"
proof -
  let ?r = "\<lparr>filename = ''a.fa'', scheme = ''ecoli'', ST = ''10'',
             loci = [''adk(10)'', ''fumC(2147483647)'']\<rparr>"
  have l: "loci ?r = map (\<lambda>(g, n). designation g n) [(''adk'', 10), (''fumC'', 2147483647)]"
    by (simp add: designation_def decimal.simps)
  have g: "\<forall>(g, n) \<in> set [(''adk'', 10), (''fumC'', 2147483647 :: nat)].
             list_all is_letter g \<and> n < 2 ^ 31"
    by (simp add: is_letter_def)
  have u: "labels_unique \<lparr>genes = [''adk'', ''fumC''], rows = [?r]\<rparr>" by code_simp
  show ?thesis
    using designation_round_trip
      [of "\<lparr>genes = [''adk'', ''fumC''], rows = [?r]\<rparr>" ?r
          "[(''adk'', 10), (''fumC'', 2147483647)]", OF u _ _ l g]
    by simp
qed

text \<open>
  Claim C8 as stated covers every gene name and every integer allele id. The allele id
  \<open>2147483648\<close> does not fit the \<open>int32\<close> column and is written as \<open>-2147483648\<close>;
  the digits of the gene name \<open>16S\<close> survive the deletion of letters, so that allele 3
  of that gene is written as 163.
\<close>

theorem designation_round_trip_counterexample:
  "clean_dataframe_alleles
     \<lparr>genes = [''adk'', ''16S''],
      rows = [\<lparr>filename = ''a.fa'', scheme = ''bhenselae'', ST = ''1'',
               loci = [designation ''adk'' 2147483648, designation ''16S'' 3]\<rparr>]\<rparr>
   = Inr (\<lparr>genes = [''adk'', ''16S''],
           rows = [\<lparr>filename = ''a.fa'', scheme = ''bhenselae'', ST = ''1'',
                    loci = [2147483648, 163]\<rparr>]\<rparr>,
          \<lparr>genes = [''adk'', ''16S''], rows = []\<rparr>)
   \<and> map sint [2147483648 :: int32, 163] = [- 2147483648, 163]"
proof -
  have "list_all is_letter ''adk''" by (simp add: is_letter_def)
  then have c1: "coerce_cell (designation ''adk'' 2147483648) = Num 2147483648 0"
    using coerce_designation [of "''adk''" 2147483648] by simp
  have "designation ''16S'' 3 = ''16S(3)''"
    by (simp add: designation_def decimal.simps)
  moreover have "coerce_cell ''16S(3)'' = Num 163 0" by code_simp
  ultimately have c2: "coerce_cell (designation ''16S'' 3) = Num 163 0" by simp
  show ?thesis
    by (simp add: clean_dataframe_alleles_def Let_def numeric_copy_def map_loci_def
          labels_unique_def columns_def
          filter_nan_def filter_no_ST_def bool_index_def c1 c2 astype_int32_def)
qed

section \<open>The Output Formatter\<close>

lemma drop_identification:
  assumes "''file'' \<notin> set (genes df)" and "''scheme'' \<notin> set (genes df)"
      and "\<forall>r \<in> set (rows df). length (loci r) = length (genes df)"
  shows "drop_columns [''file'', ''scheme''] (to_sheet f df)
           = Inr (''ST'' # genes df, map (\<lambda>r. Text (ST r) # map f (loci r)) (rows df))"
proof -
  have h: "filter (\<lambda>l. l \<notin> set [''file'', ''scheme'']) (genes df) = genes df"
    using assms(1,2) by (auto simp: filter_id_conv)
  have ln: "map snd (filter (\<lambda>p. fst p \<notin> set [''file'', ''scheme''])
                       (zip (genes df) (map f (loci r)))) = map f (loci r)"
    if "r \<in> set (rows df)" for r
  proof -
    have "filter (\<lambda>p. fst p \<notin> set [''file'', ''scheme'']) (zip (genes df) (map f (loci r)))
            = zip (genes df) (map f (loci r))"
      using assms(1,2) by (auto simp: filter_id_conv dest: set_zip_leftD)
    moreover have "length (genes df) = length (map f (loci r))"
      using assms(3) that by simp
    ultimately show ?thesis by (simp only: map_snd_zip)
  qed
  show ?thesis
    using h ln by (simp add: drop_columns_def to_sheet_def columns_def)
qed

text \<open>
  Claim C9. When the stages return a clean table in which no gene is named \<open>file\<close> or
  \<open>scheme\<close> and every row has one cell per gene, the primary output holds the columns
  \<open>ST\<close> and the genes if the identification flag is false, and all columns if it is
  true. The mismatched-scheme and failed-allele outputs, when requested, hold all
  columns of their tables, \<open>file\<close> and \<open>scheme\<close> included, whatever the flag.
\<close>

theorem main_outputs:
  assumes "run_stages a = (printed, Inr (df, df_not_scheme, df_failed))"
      and "''file'' \<notin> set (genes df)" and "''scheme'' \<notin> set (genes df)"
      and "\<forall>r \<in> set (rows df). length (loci r) = length (genes df)"
  shows "main a =
     (printed,
      Inr ((out a,
            if include_filename a
            then (''file'' # ''scheme'' # ''ST'' # genes df,
                  map (\<lambda>r. Text (filename r) # Text (scheme r) # Text (ST r)
                             # map Int32 (loci r)) (rows df))
            else (''ST'' # genes df,
                  map (\<lambda>r. Text (ST r) # map Int32 (loci r)) (rows df)))
           # (case not_scheme a of
                Some p \<Rightarrow>
                  [(p, (''file'' # ''scheme'' # ''ST'' # genes df_not_scheme,
                        map (\<lambda>r. Text (filename r) # Text (scheme r) # Text (ST r)
                                   # map Text (loci r)) (rows df_not_scheme)))]
              | None \<Rightarrow> [])
           @ (case failed_alleles a of
                Some p \<Rightarrow>
                  [(p, (''file'' # ''scheme'' # ''ST'' # genes df_failed,
                        map (\<lambda>r. Text (filename r) # Text (scheme r) # Text (ST r)
                                   # map Text (loci r)) (rows df_failed)))]
              | None \<Rightarrow> [])))"
proof -
  have w: "write_outputs a df df_not_scheme df_failed =
      Inr ((out a,
            if include_filename a then to_sheet Int32 df
            else (''ST'' # genes df, map (\<lambda>r. Text (ST r) # map Int32 (loci r)) (rows df)))
           # (case not_scheme a of Some p \<Rightarrow> [(p, to_sheet Text df_not_scheme)] | None \<Rightarrow> [])
           @ (case failed_alleles a of Some p \<Rightarrow> [(p, to_sheet Text df_failed)] | None \<Rightarrow> []))"
    unfolding write_outputs_def
    by (simp add: drop_identification [OF assms(2,3,4)])
  show ?thesis
    unfolding main_def assms(1) and_then_def
    by (simp add: w to_sheet_def columns_def split: option.splits)
qed

theorem main_outputs_witness:
  "main \<lparr>mlst_files = Some [\<lparr>path = ''a.tsv'', st_size = Inr 40,
                              parsed = Inr [[''a.fa'', ''ecoli'', ''10'', ''adk(10)'', ''fumC(11)'']]\<rparr>,
                            \<lparr>path = ''b.tsv'', st_size = Inr 0, parsed = Inl EmptyDataError\<rparr>,
                            \<lparr>path = ''c.tsv'', st_size = Inr 38,
                              parsed = Inr [[''c.fa'', ''ecoli'', ''-'', ''adk(10)'', ''-'']]\<rparr>,
                            \<lparr>path = ''d.tsv'', st_size = Inr 44,
                              parsed = Inr [[''d.fa'', ''senterica'', ''2'', ''aroC(1)'', ''dnaN(5)'']]\<rparr>],
          mlst_summary = None, scheme_opt = None, out = ''allelic_profiles.tsv'',
          not_scheme = Some ''other.tsv'', failed_alleles = Some ''failed.tsv'',
          nr_loci = 2, include_filename = False\<rparr>
   = ([Skipped_empty ''b.tsv'', Combined 3,
       Printed_pct (200 / 3), Printed_type, Warning ''ecoli'' (200 / 3)],
      Inr [(''allelic_profiles.tsv'',
            ([''ST'', ''adk'', ''fumC''], [[Text ''10'', Int32 10, Int32 11]])),
           (''other.tsv'',
            ([''file'', ''scheme'', ''ST'', ''adk'', ''fumC''],
             [[Text ''d.fa'', Text ''senterica'', Text ''2'', Text ''aroC(1)'', Text ''dnaN(5)'']])),
           (''failed.tsv'',
            ([''file'', ''scheme'', ''ST'', ''adk'', ''fumC''],
             [[Text ''c.fa'', Text ''ecoli'', Text ''-'', Text ''adk(10)'', Text ''-'']]))])"
proof -
  let ?a = "\<lparr>mlst_files = Some [\<lparr>path = ''a.tsv'', st_size = Inr 40,
                              parsed = Inr [[''a.fa'', ''ecoli'', ''10'', ''adk(10)'', ''fumC(11)'']]\<rparr>,
                            \<lparr>path = ''b.tsv'', st_size = Inr 0, parsed = Inl EmptyDataError\<rparr>,
                            \<lparr>path = ''c.tsv'', st_size = Inr 38,
                              parsed = Inr [[''c.fa'', ''ecoli'', ''-'', ''adk(10)'', ''-'']]\<rparr>,
                            \<lparr>path = ''d.tsv'', st_size = Inr 44,
                              parsed = Inr [[''d.fa'', ''senterica'', ''2'', ''aroC(1)'', ''dnaN(5)'']]\<rparr>],
          mlst_summary = None, scheme_opt = None, out = ''allelic_profiles.tsv'',
          not_scheme = Some ''other.tsv'', failed_alleles = Some ''failed.tsv'',
          nr_loci = 2, include_filename = False\<rparr>"
  have st: "run_stages ?a =
     ([Skipped_empty ''b.tsv'', Combined 3,
       Printed_pct (200 / 3), Printed_type, Warning ''ecoli'' (200 / 3)],
      Inr (\<lparr>genes = [''adk'', ''fumC''],
             rows = [\<lparr>filename = ''a.fa'', scheme = ''ecoli'', ST = ''10'', loci = [10, 11]\<rparr>]\<rparr>,
           \<lparr>genes = [''adk'', ''fumC''],
             rows = [\<lparr>filename = ''d.fa'', scheme = ''senterica'', ST = ''2'',
                      loci = [''aroC(1)'', ''dnaN(5)'']\<rparr>]\<rparr>,
           \<lparr>genes = [''adk'', ''fumC''],
             rows = [\<lparr>filename = ''c.fa'', scheme = ''ecoli'', ST = ''-'',
                      loci = [''adk(10)'', ''-'']\<rparr>]\<rparr>))"
    by code_simp
  show ?thesis
    using main_outputs [OF st] by simp
qed

end
